theory Spec2Isabelle
  imports Main "HOL-Library.Word" "HOL-Library.Signed_Division"
begin

section \<open>The PID thread of the soldering iron firmware\<close>

text \<open>
  A shallow embedding of \<^verbatim>\<open>source/Core/Threads/PIDThread.cpp\<close>: the control task
  \<^verbatim>\<open>startPIDTask\<close>, the thermal runaway detector \<^verbatim>\<open>detectThermalRunaway\<close> and the
  chain of output filters \<^verbatim>\<open>setOutputx10WattsViaFilters\<close>.

  Machine integers are words: \<^verbatim>\<open>int32_t\<close>, \<^verbatim>\<open>uint32_t\<close>, \<^verbatim>\<open>int\<close> and \<^verbatim>\<open>TickType_t\<close> are
  \<^typ>\<open>32 word\<close>, \<^verbatim>\<open>int16_t\<close> and \<^verbatim>\<open>uint16_t\<close> are \<^typ>\<open>16 word\<close>. Arithmetic wraps
  around. A comparison that C performs on signed operands is written on \<^const>\<open>sint\<close>,
  one that C performs on unsigned operands is the order of the word type.
\<close>

type_synonym int32_t = "32 word"
type_synonym uint32_t = "32 word"
type_synonym int16_t = "16 word"
type_synonym uint16_t = "16 word"
type_synonym TickType_t = "32 word"

subsection \<open>Compile-time configuration\<close>

text \<open>
  The macros come from headers that are not part of the translated file, so they are
  parameters of the model. \<open>THERMAL_RUNAWAY_TICKS\<close> stands for the product
  \<^verbatim>\<open>THERMAL_RUNAWAY_TIME_SEC * TICKS_SECOND\<close>, which is compared with a tick difference
  and hence as an unsigned value. \<open>SLEW_LIMIT\<close> is \<open>None\<close> when the macro is not
  defined, and \<open>DEBUG_UART_OUTPUT\<close> says whether that macro is defined.
\<close>

record config =
  PID_TIM_HZ :: nat
  THERMAL_RUNAWAY_TEMP_C :: int32_t
  THERMAL_RUNAWAY_TICKS :: TickType_t
  TICKS_100MS :: TickType_t
  SLEW_LIMIT :: "int32_t option"
  DEBUG_UART_OUTPUT :: bool

definition powerPulseWaitUnit :: "config \<Rightarrow> TickType_t" where
  "powerPulseWaitUnit cfg = 25 * TICKS_100MS cfg"

definition powerPulseDurationUnit :: "config \<Rightarrow> TickType_t" where
  "powerPulseDurationUnit cfg = (5 * TICKS_100MS cfg) div 2"

subsection \<open>The rolling history\<close>

text \<open>
  Modelled from the spec: the template \<^verbatim>\<open>history<T, SIZE>\<close> of \<^verbatim>\<open>history.hpp\<close>, which
  is not part of the translated file. The spec describes a fixed-capacity circular buffer
  with a running sum; \<open>update\<close> evicts the oldest sample, inserts the new one and adjusts
  the sum, and \<open>average\<close> is the sum divided by the capacity (C division, truncating).
  The initialiser \<^verbatim>\<open>{{0}, 0, 0}\<close> in \<^verbatim>\<open>startPIDTask\<close> gives the three members.
\<close>

record history =
  buf :: "int32_t list"
  sum_h :: int32_t
  loc :: nat

definition history_init :: "nat \<Rightarrow> history" where
  "history_init n = \<lparr>buf = replicate n 0, sum_h = 0, loc = 0\<rparr>"

definition update :: "history \<Rightarrow> int32_t \<Rightarrow> history" where
  "update h val =
     \<lparr>buf = (buf h)[loc h := val],
      sum_h = sum_h h - buf h ! loc h + val,
      loc = (loc h + 1) mod length (buf h)\<rparr>"

definition average :: "history \<Rightarrow> int32_t" where
  "average h = word_of_int (sint (sum_h h) sdiv int (length (buf h)))"

subsection \<open>Persistent state, environment and effects\<close>

text \<open>
  The state that the task keeps between cycles: the local \<^verbatim>\<open>tempError\<close> of
  \<^verbatim>\<open>startPIDTask\<close>, the global \<^verbatim>\<open>heaterThermalRunaway\<close> and the function-level statics
  of \<^verbatim>\<open>detectThermalRunaway\<close> and \<^verbatim>\<open>setOutputx10WattsViaFilters\<close>. The local
  \<^verbatim>\<open>PIDTempTarget\<close> is assigned before it is read in every cycle, so it carries nothing
  from one cycle to the next and is a local of the cycle here as well.
\<close>

record pid_state =
  tempError :: history
  tipTempCRunawayTemp :: uint16_t
  runawaylastChangeTime :: TickType_t
  heaterThermalRunaway :: bool
  lastPowerPulseStart :: TickType_t
  lastPowerPulseEnd :: TickType_t
  x10WattsOutLast :: int32_t

datatype SettingsOptions = KeepAwakePulse | KeepAwakePulseWait | KeepAwakePulseDuration | PowerLimit

text \<open>
  What one cycle reads from outside the file: the result of the wait for the sample
  notification (\<open>True\<close> when it arrived), the tip temperature and its maximum, the
  globals \<^verbatim>\<open>currentTempTargetDegC\<close> and \<^verbatim>\<open>powerSupplyWattageLimit\<close> written by other
  tasks, the settings, the raw ADC reading, the average of \<^verbatim>\<open>x10WattHistory\<close>, the
  thermal model \<^verbatim>\<open>tempToX10Watts\<close>, and the tick counter at each place where the cycle
  reads it. The settings are taken to keep their values during one cycle.
\<close>

text \<open>
  Modelled from the spec: the result types of \<^verbatim>\<open>getSettingValue\<close> and
  \<^verbatim>\<open>getTipRawTemp\<close>, which are declared in headers that are not part of the translated
  file; the spec gives both the result type \<^verbatim>\<open>int\<close>. Every use below promotes the
  result to \<^verbatim>\<open>int\<close> (or converts it to \<^verbatim>\<open>TickType_t\<close>) first, so a narrower
  unsigned result type is the special case of values between 0 and 65535.
\<close>

record cycle_env =
  ulTaskNotifyTake :: bool
  getTipInC :: uint32_t
  getTipMaxInC :: uint32_t
  currentTempTargetDegC :: uint32_t
  powerSupplyWattageLimit :: int32_t
  getSettingValue :: "SettingsOptions \<Rightarrow> int32_t"
  getTipRawTemp :: int32_t
  x10WattHistory_average :: int32_t
  tempToX10Watts :: "int32_t \<Rightarrow> int32_t"
  tick_runaway :: TickType_t
  tick_pulse_check :: TickType_t
  tick_pulse_start :: TickType_t
  tick_pulse_floor :: TickType_t

text \<open>The calls into the heater driver, the log and the watchdog, in the order made.\<close>

datatype event =
    SetTipX10Watts int32_t
  | SetTipPWM int32_t
  | LogSystemState int32_t
  | ResetWatchdog

subsection \<open>\<^verbatim>\<open>detectThermalRunaway\<close>\<close>

text \<open>
  \<^verbatim>\<open>int16_t delta = (int16_t)currentTipTempInC - (int16_t)tipTempCRunawayTemp;\<close>
  \<^verbatim>\<open>if (delta < 0) delta = -delta;\<close>
  Both results are computed in \<^verbatim>\<open>int\<close> and stored in an \<^verbatim>\<open>int16_t\<close>, which keeps the
  low 16 bits: subtraction and negation of 16-bit words.
\<close>

definition runaway_delta :: "int16_t \<Rightarrow> uint16_t \<Rightarrow> int16_t" where
  "runaway_delta currentTipTempInC reference =
     (let delta = currentTipTempInC - reference
      in if sint delta < 0 then - delta else delta)"

definition detectThermalRunaway ::
  "config \<Rightarrow> TickType_t \<Rightarrow> int16_t \<Rightarrow> int32_t \<Rightarrow> pid_state \<Rightarrow> pid_state" where
  "detectThermalRunaway cfg xTaskGetTickCount currentTipTempInC tError st =
     (if sint (THERMAL_RUNAWAY_TEMP_C cfg) < sint tError then
        if sint (THERMAL_RUNAWAY_TEMP_C cfg)
             < sint (runaway_delta currentTipTempInC (tipTempCRunawayTemp st)) then
          st\<lparr>tipTempCRunawayTemp := currentTipTempInC,
             runawaylastChangeTime := xTaskGetTickCount\<rparr>
        else if THERMAL_RUNAWAY_TICKS cfg < xTaskGetTickCount - runawaylastChangeTime st then
          st\<lparr>heaterThermalRunaway := True\<rparr>
        else st
      else
        st\<lparr>tipTempCRunawayTemp := currentTipTempInC,
           runawaylastChangeTime := xTaskGetTickCount\<rparr>)"

subsection \<open>\<^verbatim>\<open>setOutputx10WattsViaFilters\<close>\<close>

text \<open>The keep-awake pulse: the window is moved first, then the floor is applied.\<close>

definition keepAwakeWindow :: "config \<Rightarrow> cycle_env \<Rightarrow> pid_state \<Rightarrow> pid_state" where
  "keepAwakeWindow cfg env st =
     (if powerPulseWaitUnit cfg * getSettingValue env KeepAwakePulseWait
           < tick_pulse_check env - lastPowerPulseStart st then
        st\<lparr>lastPowerPulseStart := tick_pulse_start env,
           lastPowerPulseEnd := tick_pulse_start env
              + powerPulseDurationUnit cfg * getSettingValue env KeepAwakePulseDuration\<rparr>
      else st)"

definition keepAwakeFloor :: "cycle_env \<Rightarrow> pid_state \<Rightarrow> int32_t \<Rightarrow> int32_t" where
  "keepAwakeFloor env st x10WattsOut =
     (if sint x10WattsOut < sint (getSettingValue env KeepAwakePulse)
         \<and> tick_pulse_floor env < lastPowerPulseEnd st then
        getSettingValue env KeepAwakePulse
      else x10WattsOut)"

definition keepAwakePulse ::
  "config \<Rightarrow> cycle_env \<Rightarrow> pid_state \<Rightarrow> int32_t \<Rightarrow> pid_state \<times> int32_t" where
  "keepAwakePulse cfg env st x10WattsOut =
     (if getSettingValue env KeepAwakePulse \<noteq> 0 then
        let st' = keepAwakeWindow cfg env st
        in (st', keepAwakeFloor env st' x10WattsOut)
      else (st, x10WattsOut))"

definition adcCutoff :: "cycle_env \<Rightarrow> int32_t \<Rightarrow> int32_t" where
  "adcCutoff env x10WattsOut =
     (if 0x7FFF - 32 < sint (getTipRawTemp env) then 0 else x10WattsOut)"

definition runawayCutoff :: "pid_state \<Rightarrow> int32_t \<Rightarrow> int32_t" where
  "runawayCutoff st x10WattsOut = (if heaterThermalRunaway st then 0 else x10WattsOut)"

definition powerLimitCeiling :: "cycle_env \<Rightarrow> int32_t \<Rightarrow> int32_t" where
  "powerLimitCeiling env x10WattsOut =
     (if getSettingValue env PowerLimit \<noteq> 0
         \<and> sint (getSettingValue env PowerLimit * 10) < sint x10WattsOut then
        getSettingValue env PowerLimit * 10
      else x10WattsOut)"

definition supplyCeiling :: "cycle_env \<Rightarrow> int32_t \<Rightarrow> int32_t" where
  "supplyCeiling env x10WattsOut =
     (if powerSupplyWattageLimit env \<noteq> 0
         \<and> sint (powerSupplyWattageLimit env * 10) < sint x10WattsOut then
        powerSupplyWattageLimit env * 10
      else x10WattsOut)"

text \<open>The block under \<^verbatim>\<open>#ifdef SLEW_LIMIT\<close>; without the macro nothing happens.\<close>

definition slewLimiter :: "config \<Rightarrow> pid_state \<Rightarrow> int32_t \<Rightarrow> pid_state \<times> int32_t" where
  "slewLimiter cfg st x10WattsOut =
     (case SLEW_LIMIT cfg of
        None \<Rightarrow> (st, x10WattsOut)
      | Some slew \<Rightarrow>
          let x1 = (if sint slew < sint (x10WattsOut - x10WattsOutLast st)
                    then x10WattsOutLast st + slew else x10WattsOut);
              x2 = (if sint x1 < 0 then 0 else x1)
          in (st\<lparr>x10WattsOutLast := x2\<rparr>, x2))"

definition commit :: "config \<Rightarrow> int32_t \<Rightarrow> event list" where
  "commit cfg x10WattsOut =
     SetTipX10Watts x10WattsOut
       # (if DEBUG_UART_OUTPUT cfg then [LogSystemState x10WattsOut] else [])
       @ [ResetWatchdog]"

definition setOutputx10WattsViaFilters ::
  "config \<Rightarrow> cycle_env \<Rightarrow> pid_state \<Rightarrow> int32_t \<Rightarrow> pid_state \<times> event list" where
  "setOutputx10WattsViaFilters cfg env st x10WattsOut =
     (let (st1, x1) = keepAwakePulse cfg env st x10WattsOut;
          x2 = adcCutoff env x1;
          x3 = runawayCutoff st1 x2;
          x4 = powerLimitCeiling env x3;
          x5 = supplyCeiling env x4;
          (st2, x6) = slewLimiter cfg st1 x5
      in (st2, commit cfg x6))"

subsection \<open>\<^verbatim>\<open>startPIDTask\<close>\<close>

definition clampTarget :: "uint32_t \<Rightarrow> uint32_t \<Rightarrow> uint32_t" where
  "clampTarget PIDTempTarget tipMaxInC =
     (let t = (if 450 < PIDTempTarget then 450 else PIDTempTarget)
      in if tipMaxInC < t then tipMaxInC else t)"

text \<open>
  \<^verbatim>\<open>int32_t tError = PIDTempTarget - currentTipTempInC + 1;\<close> is unsigned arithmetic
  converted to \<^verbatim>\<open>int32_t\<close>; the two lines after it saturate to the range of
  \<^verbatim>\<open>int16_t\<close>.
\<close>

definition temperatureError :: "uint32_t \<Rightarrow> uint32_t \<Rightarrow> int32_t" where
  "temperatureError PIDTempTarget currentTipTempInC =
     (let tError = PIDTempTarget - currentTipTempInC + 1;
          tError = (if 32767 < sint tError then 32767 else tError)
      in if sint tError < - 32768 then - 32768 else tError)"

definition requestedPower :: "cycle_env \<Rightarrow> int32_t \<Rightarrow> int32_t" where
  "requestedPower env tError = 0 + tempToX10Watts env tError + x10WattHistory_average env"

definition pidCycle :: "config \<Rightarrow> cycle_env \<Rightarrow> pid_state \<Rightarrow> pid_state \<times> event list" where
  "pidCycle cfg env st =
     (if ulTaskNotifyTake env then
        let currentTipTempInC = getTipInC env;
            PIDTempTarget = currentTempTargetDegC env
        in if PIDTempTarget \<noteq> 0 then
             let tError = temperatureError (clampTarget PIDTempTarget (getTipMaxInC env))
                            currentTipTempInC;
                 st1 = st\<lparr>tempError := update (tempError st) tError\<rparr>;
                 x10WattsOut = requestedPower env tError;
                 st2 = detectThermalRunaway cfg (tick_runaway env)
                         (ucast currentTipTempInC) tError st1
             in setOutputx10WattsViaFilters cfg env st2 x10WattsOut
           else
             setOutputx10WattsViaFilters cfg env
               (detectThermalRunaway cfg (tick_runaway env) (ucast currentTipTempInC) 0 st) 0
      else (st, [SetTipPWM 0]))"

text \<open>
  The endless loop of the task, unrolled over the environments of its first cycles. The
  task never returns; the model gives the state and the calls made after each finite
  number of cycles.
\<close>

fun pidLoop :: "config \<Rightarrow> cycle_env list \<Rightarrow> pid_state \<Rightarrow> pid_state \<times> event list" where
  "pidLoop cfg [] st = (st, [])"
| "pidLoop cfg (env # envs) st =
     (let (st1, ev1) = pidCycle cfg env st;
          (st2, ev2) = pidLoop cfg envs st1
      in (st2, ev1 @ ev2))"

text \<open>
  The task switches the output off and starts with an empty error history; the statics
  and the runaway flag have the values the program start gave them. The write of 0 to
  \<^verbatim>\<open>currentTempTargetDegC\<close> and the 64 readings that seed the ADC filters act on data
  outside the file: the target of each cycle is whatever the environment holds then.
\<close>

definition startPIDTask :: "config \<Rightarrow> cycle_env list \<Rightarrow> pid_state \<times> event list" where
  "startPIDTask cfg envs =
     (let st0 = \<lparr>tempError = history_init (PID_TIM_HZ cfg),
                 tipTempCRunawayTemp = 0, runawaylastChangeTime = 0,
                 heaterThermalRunaway = False,
                 lastPowerPulseStart = 0, lastPowerPulseEnd = 0,
                 x10WattsOutLast = 0\<rparr>;
          (st, ev) = pidLoop cfg envs st0
      in (st, SetTipX10Watts 0 # ev))"

subsection \<open>Properties of traces and concrete inputs\<close>

text \<open>
  A watchdog reset is in order when a power value was handed to \<^verbatim>\<open>setTipX10Watts\<close>
  since the last reset and the last call of \<^verbatim>\<open>setTipPWM\<close>. The flag says whether such
  a value is pending.
\<close>

fun resetOnlyAfterCommit :: "bool \<Rightarrow> event list \<Rightarrow> bool" where
  "resetOnlyAfterCommit committed [] = True"
| "resetOnlyAfterCommit committed (SetTipX10Watts v # es) = resetOnlyAfterCommit True es"
| "resetOnlyAfterCommit committed (LogSystemState v # es) = resetOnlyAfterCommit committed es"
| "resetOnlyAfterCommit committed (SetTipPWM v # es) = resetOnlyAfterCommit False es"
| "resetOnlyAfterCommit committed (ResetWatchdog # es) =
     (committed \<and> resetOnlyAfterCommit False es)"

text \<open>
  Neither ceiling is negative in tenths of a watt, as the code computes them.
\<close>

definition limitsNotNegative :: "cycle_env \<Rightarrow> bool" where
  "limitsNotNegative env =
     (0 \<le> sint (getSettingValue env PowerLimit * 10)
      \<and> 0 \<le> sint (powerSupplyWattageLimit env * 10))"

text \<open>
  The smaller of the two limits in tenths of a watt, as the code computes them.
\<close>

definition smallerLimitX10 :: "cycle_env \<Rightarrow> int32_t" where
  "smallerLimitX10 env =
     (if sint (getSettingValue env PowerLimit * 10) \<le> sint (powerSupplyWattageLimit env * 10)
      then getSettingValue env PowerLimit * 10 else powerSupplyWattageLimit env * 10)"



text \<open>
  The keep-awake floor raises the value: the pulse is switched on, the value is below the
  pulse level, and the tick count is before the end of the pulse window as the cycle has
  moved it.
\<close>

definition keepAwakeFloorActive :: "config \<Rightarrow> cycle_env \<Rightarrow> pid_state \<Rightarrow> int32_t \<Rightarrow> bool" where
  "keepAwakeFloorActive cfg env st x10WattsOut =
     (getSettingValue env KeepAwakePulse \<noteq> 0
      \<and> sint x10WattsOut < sint (getSettingValue env KeepAwakePulse)
      \<and> tick_pulse_floor env < lastPowerPulseEnd (keepAwakeWindow cfg env st))"


text \<open>
  The detector over the samples of successive cycles: the tick count, the tip
  temperature and the error of each call.
\<close>

type_synonym sample = "TickType_t \<times> int16_t \<times> int32_t"

fun detectRun :: "config \<Rightarrow> sample list \<Rightarrow> pid_state \<Rightarrow> pid_state" where
  "detectRun cfg [] st = st"
| "detectRun cfg ((now, cur, e) # samples) st =
     detectRun cfg samples (detectThermalRunaway cfg now cur e st)"

text \<open>
  The scenario of a tip that heats in time: every sample has an error above the
  threshold, and counted from the baseline (temperature \<open>reference\<close> taken at tick
  \<open>since\<close>) every sample either has moved by more than the threshold, which makes it
  the next baseline, or comes before the time limit has run out.
\<close>

fun risingInTime :: "config \<Rightarrow> uint16_t \<Rightarrow> TickType_t \<Rightarrow> sample list \<Rightarrow> bool" where
  "risingInTime cfg reference since [] = True"
| "risingInTime cfg reference since ((now, cur, e) # samples) =
     (sint (THERMAL_RUNAWAY_TEMP_C cfg) < sint e
      \<and> (if sint (THERMAL_RUNAWAY_TEMP_C cfg) < sint (runaway_delta cur reference)
         then risingInTime cfg cur now samples
         else now - since \<le> THERMAL_RUNAWAY_TICKS cfg
              \<and> risingInTime cfg reference since samples))"

text \<open>
  A configuration without slew limiting and without debug output, a cycle that heats a
  cold tip towards 320 degrees with every limit switched off, and the state at the start
  of the task. The concrete statements below evaluate the model on these.
\<close>

definition example_cfg :: config where
  "example_cfg = \<lparr>PID_TIM_HZ = 8, THERMAL_RUNAWAY_TEMP_C = 3, THERMAL_RUNAWAY_TICKS = 20000,
     TICKS_100MS = 100, SLEW_LIMIT = None, DEBUG_UART_OUTPUT = False\<rparr>"

definition example_env :: cycle_env where
  "example_env = \<lparr>ulTaskNotifyTake = True, getTipInC = 25, getTipMaxInC = 500,
     currentTempTargetDegC = 320, powerSupplyWattageLimit = 0,
     getSettingValue = (\<lambda>opt. 0), getTipRawTemp = 1000, x10WattHistory_average = 0,
     tempToX10Watts = (\<lambda>e. 2 * e),
     tick_runaway = 1000, tick_pulse_check = 1000, tick_pulse_start = 1000,
     tick_pulse_floor = 1000\<rparr>"

definition example_st :: pid_state where
  "example_st = \<lparr>tempError = history_init 8,
     tipTempCRunawayTemp = 0, runawaylastChangeTime = 0, heaterThermalRunaway = False,
     lastPowerPulseStart = 0, lastPowerPulseEnd = 0, x10WattsOutLast = 0\<rparr>"

text \<open>
  Variants of the example: a build with the slew limiter, a cycle under a configured
  limit of 65 W and a supply limit of 45 W, the state with the runaway flag set, and
  four samples of a tip that heats in time.
\<close>

definition example_slew_cfg :: config where
  "example_slew_cfg = example_cfg\<lparr>SLEW_LIMIT := Some 200\<rparr>"

definition example_limits_env :: cycle_env where
  "example_limits_env = example_env
     \<lparr>powerSupplyWattageLimit := 45,
      getSettingValue := (\<lambda>opt. case opt of PowerLimit \<Rightarrow> 65 | _ \<Rightarrow> 0)\<rparr>"

definition example_runaway_st :: pid_state where
  "example_runaway_st = example_st\<lparr>heaterThermalRunaway := True\<rparr>"

text \<open>
  Further variants: a supply limit of -214748364 W, whose tenfold is still within 32
  bits, the runaway state after an output of 100, and a cycle inside a keep-awake pulse
  of level 30.
\<close>

definition example_wrap_env :: cycle_env where
  "example_wrap_env = example_env\<lparr>powerSupplyWattageLimit := - 214748364\<rparr>"

definition example_last_st :: pid_state where
  "example_last_st = example_runaway_st\<lparr>x10WattsOutLast := 100\<rparr>"

definition example_pulse_env :: cycle_env where
  "example_pulse_env = example_env
     \<lparr>getSettingValue := (\<lambda>opt. case opt of KeepAwakePulse \<Rightarrow> 30 | KeepAwakePulseWait \<Rightarrow> 4
                                | KeepAwakePulseDuration \<Rightarrow> 1 | PowerLimit \<Rightarrow> 0),
      tick_pulse_check := 20000, tick_pulse_start := 20000, tick_pulse_floor := 20000\<rparr>"

definition example_samples :: "sample list" where
  "example_samples = [(1000, 30, 100), (15000, 31, 100), (22000, 40, 100), (50000, 50, 100)]"

section \<open>Theorems\<close>

subsection \<open>Unfolding and frame lemmas\<close>

lemmas example_defs = example_cfg_def example_env_def example_st_def

lemmas example_more_defs = example_slew_cfg_def example_limits_env_def example_runaway_st_def
  example_wrap_env_def example_last_st_def example_pulse_env_def

lemmas filter_defs = setOutputx10WattsViaFilters_def keepAwakePulse_def keepAwakeWindow_def
  keepAwakeFloor_def adcCutoff_def runawayCutoff_def powerLimitCeiling_def supplyCeiling_def
  slewLimiter_def commit_def

lemmas cycle_defs = pidCycle_def clampTarget_def temperatureError_def requestedPower_def
  detectThermalRunaway_def runaway_delta_def update_def history_init_def

lemma setOutput_unfold:
  "setOutputx10WattsViaFilters cfg env st x =
     (fst (slewLimiter cfg (fst (keepAwakePulse cfg env st x))
        (supplyCeiling env (powerLimitCeiling env
           (runawayCutoff (fst (keepAwakePulse cfg env st x))
              (adcCutoff env (snd (keepAwakePulse cfg env st x))))))),
      commit cfg (snd (slewLimiter cfg (fst (keepAwakePulse cfg env st x))
        (supplyCeiling env (powerLimitCeiling env
           (runawayCutoff (fst (keepAwakePulse cfg env st x))
              (adcCutoff env (snd (keepAwakePulse cfg env st x)))))))))"
  by (simp add: setOutputx10WattsViaFilters_def Let_def split_beta)

lemma keepAwakePulse_tempError:
  "tempError (fst (keepAwakePulse cfg env st x)) = tempError st"
  by (simp add: keepAwakePulse_def keepAwakeWindow_def Let_def)

lemma keepAwakePulse_flag:
  "heaterThermalRunaway (fst (keepAwakePulse cfg env st x)) = heaterThermalRunaway st"
  by (simp add: keepAwakePulse_def keepAwakeWindow_def Let_def)


lemma slewLimiter_tempError:
  "tempError (fst (slewLimiter cfg st x)) = tempError st"
  by (simp add: slewLimiter_def Let_def split: option.splits)

lemma slewLimiter_flag:
  "heaterThermalRunaway (fst (slewLimiter cfg st x)) = heaterThermalRunaway st"
  by (simp add: slewLimiter_def Let_def split: option.splits)

lemma setOutput_tempError:
  "tempError (fst (setOutputx10WattsViaFilters cfg env st x)) = tempError st"
  by (simp add: setOutput_unfold slewLimiter_tempError keepAwakePulse_tempError)

lemma setOutput_flag:
  "heaterThermalRunaway (fst (setOutputx10WattsViaFilters cfg env st x)) = heaterThermalRunaway st"
  by (simp add: setOutput_unfold slewLimiter_flag keepAwakePulse_flag)

lemma setOutput_events:
  "\<exists>v. snd (setOutputx10WattsViaFilters cfg env st x) = commit cfg v"
  by (auto simp: setOutput_unfold)

lemma detectThermalRunaway_tempError:
  "tempError (detectThermalRunaway cfg now cur e st) = tempError st"
  by (simp add: detectThermalRunaway_def)

lemma detectThermalRunaway_last:
  "x10WattsOutLast (detectThermalRunaway cfg now cur e st) = x10WattsOutLast st"
  by (simp add: detectThermalRunaway_def)

lemma detectThermalRunaway_flag_mono:
  "heaterThermalRunaway st \<Longrightarrow> heaterThermalRunaway (detectThermalRunaway cfg now cur e st)"
  by (simp add: detectThermalRunaway_def)

text \<open>
  A cycle whose sample arrived ends in the filter chain, entered with the last output of
  the cycle before and with the runaway flag still set when it was set.
\<close>

lemma pidCycle_shape:
  "ulTaskNotifyTake env \<Longrightarrow>
   \<exists>st2 x. pidCycle cfg env st = setOutputx10WattsViaFilters cfg env st2 x
     \<and> x10WattsOutLast st2 = x10WattsOutLast st
     \<and> (heaterThermalRunaway st \<longrightarrow> heaterThermalRunaway st2)"
proof (cases "currentTempTargetDegC env = 0")
  case True
  assume n: "ulTaskNotifyTake env"
  let ?st2 = "detectThermalRunaway cfg (tick_runaway env) (ucast (getTipInC env)) 0 st"
  have "pidCycle cfg env st = setOutputx10WattsViaFilters cfg env ?st2 0"
    using n True by (simp add: pidCycle_def)
  then show ?thesis
    using detectThermalRunaway_last detectThermalRunaway_flag_mono by blast
next
  case False
  assume n: "ulTaskNotifyTake env"
  define tError where "tError = temperatureError
      (clampTarget (currentTempTargetDegC env) (getTipMaxInC env)) (getTipInC env)"
  let ?st1 = "st\<lparr>tempError := update (tempError st) tError\<rparr>"
  let ?st2 = "detectThermalRunaway cfg (tick_runaway env) (ucast (getTipInC env)) tError ?st1"
  have "pidCycle cfg env st = setOutputx10WattsViaFilters cfg env ?st2 (requestedPower env tError)"
    using n False by (simp add: pidCycle_def Let_def tError_def)
  moreover have "x10WattsOutLast ?st2 = x10WattsOutLast st"
    by (simp add: detectThermalRunaway_last)
  moreover have "heaterThermalRunaway st \<longrightarrow> heaterThermalRunaway ?st2"
    by (simp add: detectThermalRunaway_flag_mono)
  ultimately show ?thesis by blast
qed

lemma pidCycle_events:
  "\<exists>v. snd (pidCycle cfg env st) = (if ulTaskNotifyTake env then commit cfg v else [SetTipPWM 0])"
proof (cases "ulTaskNotifyTake env")
  case True
  then show ?thesis using pidCycle_shape [of env cfg st] setOutput_events by (metis (full_types))
next
  case False
  then show ?thesis by (simp add: pidCycle_def)
qed

lemma sint_times10:
  fixes a :: "32 word"
  assumes "- (2 ^ 31) \<le> 10 * sint a" "10 * sint a < 2 ^ 31"
  shows "sint (a * 10) = 10 * sint a"
proof -
  have "sint (a * 10) = signed_take_bit 31 (sint a * sint (10 :: 32 word))"
    by (simp add: sint_word_ariths)
  also have "\<dots> = signed_take_bit 31 (10 * sint a)"
    by (simp add: mult.commute)
  also have "\<dots> = 10 * sint a"
    using assms by (simp add: signed_take_bit_int_eq_self)
  finally show ?thesis .
qed

lemma runaway_delta_abs:
  fixes cur ref :: "16 word"
  assumes "\<bar>sint cur - sint ref\<bar> < 32768"
  shows "sint (runaway_delta cur ref) = \<bar>sint cur - sint ref\<bar>"
proof -
  have d: "sint (cur - ref) = sint cur - sint ref"
    using assms by (simp add: sint_word_ariths signed_take_bit_int_eq_self)
  have n: "sint (- (cur - ref)) = - (sint cur - sint ref)"
    using assms d by (simp add: sint_word_ariths signed_take_bit_int_eq_self)
  show ?thesis
    using d n by (simp add: runaway_delta_def Let_def)
qed


subsection \<open>The sampler gate and the watchdog\<close>

text \<open>
  C8. When the wait for the sample notification times out, the cycle calls
  \<^verbatim>\<open>setTipPWM(0)\<close> and nothing else, and the persistent state after the cycle is the
  state before it: error history (buffer, sum and position), runaway baseline and flag,
  and the two timestamps of the keep-awake pulse window.
\<close>

theorem sampler_timeout_frame:
  "\<not> ulTaskNotifyTake env \<Longrightarrow> pidCycle cfg env st = (st, [SetTipPWM 0])"
  by (simp add: pidCycle_def)

theorem sampler_timeout_frame_witness:
  "\<not> ulTaskNotifyTake (example_env\<lparr>ulTaskNotifyTake := False\<rparr>)
   \<and> pidCycle example_cfg (example_env\<lparr>ulTaskNotifyTake := False\<rparr>) example_st
       = (example_st, [SetTipPWM 0])"
  using sampler_timeout_frame
    [of "example_env\<lparr>ulTaskNotifyTake := False\<rparr>" example_cfg example_st]
  by (simp add: example_env_def)

lemma resetOnlyAfterCommit_commit:
  "resetOnlyAfterCommit b (commit cfg v @ es) = resetOnlyAfterCommit False es"
  by (simp add: commit_def)

lemma resetOnlyAfterCommit_pidLoop:
  "resetOnlyAfterCommit b (snd (pidLoop cfg envs st))"
proof (induction envs arbitrary: st b)
  case Nil
  show ?case by simp
next
  case (Cons env envs)
  obtain st1 ev1 where c: "pidCycle cfg env st = (st1, ev1)"
    by (cases "pidCycle cfg env st")
  obtain v where v: "ev1 = (if ulTaskNotifyTake env then commit cfg v else [SetTipPWM 0])"
    using pidCycle_events [of cfg env st] c by auto
  obtain st2 ev2 where l: "pidLoop cfg envs st1 = (st2, ev2)"
    by (cases "pidLoop cfg envs st1")
  have "resetOnlyAfterCommit False ev2" using Cons.IH [of False st1] l by simp
  then show ?case using c l v by (simp add: resetOnlyAfterCommit_commit)
qed

text \<open>
  C9. A cycle whose sample arrived makes its calls in this order: \<^verbatim>\<open>setTipX10Watts\<close>
  with the final value, the log when it is compiled in, and then \<^verbatim>\<open>resetWatchdog\<close>. A
  cycle whose wait timed out calls \<^verbatim>\<open>setTipPWM(0)\<close> only and does not reset the watchdog.
  Over any number of cycles from the start of the task, every watchdog reset follows a
  call of \<^verbatim>\<open>setTipX10Watts\<close> with no other reset and no \<^verbatim>\<open>setTipPWM\<close> in between.
\<close>

theorem watchdog_only_after_commit:
  "(ulTaskNotifyTake env \<longrightarrow> (\<exists>v. snd (pidCycle cfg env st) = commit cfg v))
   \<and> (\<not> ulTaskNotifyTake env \<longrightarrow>
        snd (pidCycle cfg env st) = [SetTipPWM 0]
        \<and> ResetWatchdog \<notin> set (snd (pidCycle cfg env st)))
   \<and> resetOnlyAfterCommit False (snd (startPIDTask cfg envs))"
proof -
  have a: "ulTaskNotifyTake env \<longrightarrow> (\<exists>v. snd (pidCycle cfg env st) = commit cfg v)"
    using pidCycle_events [of cfg env st] by auto
  have b: "\<not> ulTaskNotifyTake env \<longrightarrow>
        snd (pidCycle cfg env st) = [SetTipPWM 0]
        \<and> ResetWatchdog \<notin> set (snd (pidCycle cfg env st))"
    by (simp add: pidCycle_def)
  have c: "resetOnlyAfterCommit False (snd (startPIDTask cfg envs))"
    using resetOnlyAfterCommit_pidLoop [of True cfg envs]
    by (simp add: startPIDTask_def Let_def split_beta)
  from a b c show ?thesis by blast
qed

theorem watchdog_only_after_commit_witness:
  "ulTaskNotifyTake example_env
   \<and> snd (pidCycle example_cfg example_env example_st) = [SetTipX10Watts 592, ResetWatchdog]
   \<and> \<not> ulTaskNotifyTake (example_env\<lparr>ulTaskNotifyTake := False\<rparr>)
   \<and> snd (pidCycle example_cfg (example_env\<lparr>ulTaskNotifyTake := False\<rparr>) example_st)
       = [SetTipPWM 0]
   \<and> resetOnlyAfterCommit False
       (snd (startPIDTask example_cfg [example_env, example_env\<lparr>ulTaskNotifyTake := False\<rparr>]))"
  using watchdog_only_after_commit [of example_env example_cfg example_st
      "[example_env, example_env\<lparr>ulTaskNotifyTake := False\<rparr>]"]
    watchdog_only_after_commit [of "example_env\<lparr>ulTaskNotifyTake := False\<rparr>" example_cfg
      example_st "[]"]
  by (simp add: example_defs cycle_defs filter_defs Let_def)

subsection \<open>The power calculator\<close>

text \<open>
  C3. In a cycle whose sample arrived and whose target is 0, the runaway detector is
  called with the tip temperature and the error 0, on the unchanged state, and the
  filter chain is entered with the power 0, whatever the tip temperature is.
\<close>

theorem zero_target_requests_zero:
  "ulTaskNotifyTake env \<Longrightarrow> currentTempTargetDegC env = 0 \<Longrightarrow>
   pidCycle cfg env st =
     setOutputx10WattsViaFilters cfg env
       (detectThermalRunaway cfg (tick_runaway env) (ucast (getTipInC env)) 0 st) 0"
  by (simp add: pidCycle_def)

theorem zero_target_requests_zero_witness:
  "ulTaskNotifyTake (example_env\<lparr>currentTempTargetDegC := 0\<rparr>)
   \<and> currentTempTargetDegC (example_env\<lparr>currentTempTargetDegC := 0\<rparr>) = 0
   \<and> pidCycle example_cfg (example_env\<lparr>currentTempTargetDegC := 0\<rparr>) example_st
       = (example_st\<lparr>tipTempCRunawayTemp := 25, runawaylastChangeTime := 1000\<rparr>,
          [SetTipX10Watts 0, ResetWatchdog])"
  using zero_target_requests_zero
    [of "example_env\<lparr>currentTempTargetDegC := 0\<rparr>" example_cfg example_st]
  by (simp add: example_defs filter_defs detectThermalRunaway_def)

lemma clampTarget_min: "clampTarget target tipMax = min (min target 450) tipMax"
  by (auto simp: clampTarget_def Let_def min_def)

text \<open>
  C7. In a cycle whose sample arrived and whose target is not 0, the error is computed
  from the smallest of the target, 450 and the maximum the tip can measure: that error
  goes into the history, the power request and the runaway detector. A target of 10000
  with a maximum of 500 gives 450.
\<close>

theorem effective_target_is_min:
  "ulTaskNotifyTake env \<Longrightarrow> currentTempTargetDegC env \<noteq> 0 \<Longrightarrow>
   clampTarget (currentTempTargetDegC env) (getTipMaxInC env)
     = min (min (currentTempTargetDegC env) 450) (getTipMaxInC env)
   \<and> clampTarget 10000 500 = 450
   \<and> pidCycle cfg env st =
       (let tError = temperatureError
                       (min (min (currentTempTargetDegC env) 450) (getTipMaxInC env))
                       (getTipInC env)
        in setOutputx10WattsViaFilters cfg env
             (detectThermalRunaway cfg (tick_runaway env) (ucast (getTipInC env)) tError
                (st\<lparr>tempError := update (tempError st) tError\<rparr>))
             (requestedPower env tError))"
  by (simp add: pidCycle_def Let_def clampTarget_min)

theorem effective_target_is_min_witness:
  "ulTaskNotifyTake (example_env\<lparr>currentTempTargetDegC := 10000\<rparr>)
   \<and> currentTempTargetDegC (example_env\<lparr>currentTempTargetDegC := 10000\<rparr>) \<noteq> 0
   \<and> clampTarget (currentTempTargetDegC (example_env\<lparr>currentTempTargetDegC := 10000\<rparr>))
        (getTipMaxInC (example_env\<lparr>currentTempTargetDegC := 10000\<rparr>)) = 450
   \<and> temperatureError 450 25 = 426
   \<and> snd (pidCycle example_cfg (example_env\<lparr>currentTempTargetDegC := 10000\<rparr>) example_st)
       = [SetTipX10Watts 852, ResetWatchdog]"
  using effective_target_is_min
    [of "example_env\<lparr>currentTempTargetDegC := 10000\<rparr>" example_cfg example_st]
  by (simp add: example_defs cycle_defs filter_defs Let_def)

text \<open>
  C2, as the code has it. In a cycle whose sample arrived and whose target is not 0, the
  saturated error is stored in the error history, and the power request is the thermal
  model's value for that error plus the average of \<^verbatim>\<open>x10WattHistory\<close>, the history of
  the power delivered, which the cycle reads from outside. The error history is written
  and not read: the request is the same for every content of it.
\<close>

theorem integral_term_is_power_history:
  "ulTaskNotifyTake env \<Longrightarrow> currentTempTargetDegC env \<noteq> 0 \<Longrightarrow>
   (let tError = temperatureError
                   (clampTarget (currentTempTargetDegC env) (getTipMaxInC env)) (getTipInC env)
    in tempError (fst (pidCycle cfg env st)) = update (tempError st) tError
       \<and> requestedPower env tError - tempToX10Watts env tError = x10WattHistory_average env
       \<and> pidCycle cfg env st =
           setOutputx10WattsViaFilters cfg env
             (detectThermalRunaway cfg (tick_runaway env) (ucast (getTipInC env)) tError
                (st\<lparr>tempError := update (tempError st) tError\<rparr>))
             (tempToX10Watts env tError + x10WattHistory_average env))"
  by (simp add: pidCycle_def Let_def requestedPower_def
      setOutput_tempError detectThermalRunaway_tempError)

theorem integral_term_is_power_history_witness:
  "ulTaskNotifyTake example_env \<and> currentTempTargetDegC example_env \<noteq> 0
   \<and> temperatureError (clampTarget 320 500) 25 = 296
   \<and> tempError (fst (pidCycle example_cfg example_env example_st))
       = update (tempError example_st) 296
   \<and> sum_h (tempError (fst (pidCycle example_cfg example_env example_st))) = 296
   \<and> requestedPower example_env 296 - tempToX10Watts example_env 296 = 0
   \<and> x10WattHistory_average example_env = 0"
  using integral_term_is_power_history [of example_env example_cfg example_st]
  by (simp add: example_defs cycle_defs filter_defs Let_def)

text \<open>
  C2 as stated fails: in the first cycle of the example the error is 296, the error
  history holds 296 and seven zeros afterwards, so its average is 37, while the integral
  term added to the request is 0, the average of the power history.
\<close>

theorem integral_term_counterexample:
  "ulTaskNotifyTake example_env \<and> currentTempTargetDegC example_env \<noteq> 0
   \<and> temperatureError
        (clampTarget (currentTempTargetDegC example_env) (getTipMaxInC example_env))
        (getTipInC example_env) = 296
   \<and> average (update (tempError example_st) 296) = 37
   \<and> average (tempError (fst (pidCycle example_cfg example_env example_st))) = 37
   \<and> requestedPower example_env 296 - tempToX10Watts example_env 296 = 0
   \<and> requestedPower example_env 296 - tempToX10Watts example_env 296
       \<noteq> average (tempError (fst (pidCycle example_cfg example_env example_st)))"
  by (simp add: example_defs cycle_defs filter_defs average_def Let_def signed_divide_int_def)

subsection \<open>The runaway detector\<close>

lemma detectThermalRunaway_flag_iff:
  "heaterThermalRunaway (detectThermalRunaway cfg now cur e st) \<longleftrightarrow>
     heaterThermalRunaway st
     \<or> (sint (THERMAL_RUNAWAY_TEMP_C cfg) < sint e
        \<and> sint (runaway_delta cur (tipTempCRunawayTemp st)) \<le> sint (THERMAL_RUNAWAY_TEMP_C cfg)
        \<and> THERMAL_RUNAWAY_TICKS cfg < now - runawaylastChangeTime st)"
  by (simp add: detectThermalRunaway_def)

lemma detectThermalRunaway_reset:
  "sint e \<le> sint (THERMAL_RUNAWAY_TEMP_C cfg)
     \<or> sint (THERMAL_RUNAWAY_TEMP_C cfg) < sint (runaway_delta cur (tipTempCRunawayTemp st)) \<Longrightarrow>
   detectThermalRunaway cfg now cur e st
     = st\<lparr>tipTempCRunawayTemp := cur, runawaylastChangeTime := now\<rparr>"
  by (auto simp: detectThermalRunaway_def)

lemma detectThermalRunaway_wait:
  "sint (THERMAL_RUNAWAY_TEMP_C cfg) < sint e \<Longrightarrow>
   sint (runaway_delta cur (tipTempCRunawayTemp st)) \<le> sint (THERMAL_RUNAWAY_TEMP_C cfg) \<Longrightarrow>
   \<not> THERMAL_RUNAWAY_TICKS cfg < now - runawaylastChangeTime st \<Longrightarrow>
   detectThermalRunaway cfg now cur e st = st"
  by (simp add: detectThermalRunaway_def)

lemma risingInTime_keeps_flag_false:
  "\<not> heaterThermalRunaway st \<Longrightarrow>
   risingInTime cfg (tipTempCRunawayTemp st) (runawaylastChangeTime st) samples \<Longrightarrow>
   \<not> heaterThermalRunaway (detectRun cfg (take n samples) st)"
proof (induction samples arbitrary: st n)
  case Nil
  then show ?case by simp
next
  case (Cons s samples)
  obtain now cur e where s: "s = (now, cur, e)" by (cases s)
  show ?case
  proof (cases n)
    case 0
    then show ?thesis using Cons.prems by simp
  next
    case (Suc m)
    let ?st' = "detectThermalRunaway cfg now cur e st"
    have high: "sint (THERMAL_RUNAWAY_TEMP_C cfg) < sint e"
      using Cons.prems(2) s by simp
    have step: "\<not> heaterThermalRunaway ?st'
        \<and> risingInTime cfg (tipTempCRunawayTemp ?st') (runawaylastChangeTime ?st') samples"
    proof (cases "sint (THERMAL_RUNAWAY_TEMP_C cfg)
                    < sint (runaway_delta cur (tipTempCRunawayTemp st))")
      case True
      then have "?st' = st\<lparr>tipTempCRunawayTemp := cur, runawaylastChangeTime := now\<rparr>"
        by (simp add: detectThermalRunaway_reset)
      then show ?thesis using Cons.prems s True by simp
    next
      case False
      then have w: "\<not> THERMAL_RUNAWAY_TICKS cfg < now - runawaylastChangeTime st"
        and r: "risingInTime cfg (tipTempCRunawayTemp st) (runawaylastChangeTime st) samples"
        using Cons.prems(2) s by (simp_all add: not_less)
      have "?st' = st" using high False w by (simp add: detectThermalRunaway_wait)
      then show ?thesis using Cons.prems(1) r by simp
    qed
    have "\<not> heaterThermalRunaway (detectRun cfg (take m samples) ?st')"
      using step Cons.IH [of ?st' m] by blast
    then show ?thesis using Suc s by simp
  qed
qed

text \<open>
  C4, as the code has it. With delta the absolute difference of the tip temperature and
  the reference, computed in 16 bits, one call of the detector leaves the flag set
  exactly when it was set before or the error is above the threshold, delta is at most
  the threshold and more ticks than the time limit have passed since the baseline. When
  the error is at most the threshold or delta is above it, the call makes the current
  temperature and tick count the baseline. In the remaining case (error above the
  threshold, delta at most the threshold, time limit not exceeded) the call changes
  nothing. Delta is the mathematical absolute difference whenever that is below 32768.
  For samples of a tip that heats in time, the flag is not set after any number of them.
\<close>

theorem runaway_detector_cases:
  "(heaterThermalRunaway (detectThermalRunaway cfg now cur e st) \<longleftrightarrow>
      heaterThermalRunaway st
      \<or> (sint (THERMAL_RUNAWAY_TEMP_C cfg) < sint e
         \<and> sint (runaway_delta cur (tipTempCRunawayTemp st)) \<le> sint (THERMAL_RUNAWAY_TEMP_C cfg)
         \<and> THERMAL_RUNAWAY_TICKS cfg < now - runawaylastChangeTime st))
   \<and> (sint e \<le> sint (THERMAL_RUNAWAY_TEMP_C cfg)
        \<or> sint (THERMAL_RUNAWAY_TEMP_C cfg) < sint (runaway_delta cur (tipTempCRunawayTemp st)) \<longrightarrow>
      detectThermalRunaway cfg now cur e st
        = st\<lparr>tipTempCRunawayTemp := cur, runawaylastChangeTime := now\<rparr>)
   \<and> (sint (THERMAL_RUNAWAY_TEMP_C cfg) < sint e
        \<and> sint (runaway_delta cur (tipTempCRunawayTemp st)) \<le> sint (THERMAL_RUNAWAY_TEMP_C cfg)
        \<and> \<not> THERMAL_RUNAWAY_TICKS cfg < now - runawaylastChangeTime st \<longrightarrow>
      detectThermalRunaway cfg now cur e st = st)
   \<and> (\<bar>sint cur - sint (tipTempCRunawayTemp st)\<bar> < 32768 \<longrightarrow>
      sint (runaway_delta cur (tipTempCRunawayTemp st))
        = \<bar>sint cur - sint (tipTempCRunawayTemp st)\<bar>)
   \<and> (\<not> heaterThermalRunaway st
        \<and> risingInTime cfg (tipTempCRunawayTemp st) (runawaylastChangeTime st) samples \<longrightarrow>
      \<not> heaterThermalRunaway (detectRun cfg (take n samples) st))"
  using detectThermalRunaway_flag_iff [of cfg now cur e st]
    detectThermalRunaway_reset [of e cfg cur st now]
    detectThermalRunaway_wait [of cfg e cur st now]
    runaway_delta_abs [of cur "tipTempCRunawayTemp st"]
    risingInTime_keeps_flag_false [of st cfg samples n]
  by blast

theorem runaway_detector_cases_witness:
  "sint (THERMAL_RUNAWAY_TEMP_C example_cfg) < sint (100 :: int32_t)
   \<and> sint (runaway_delta 2 (tipTempCRunawayTemp example_st)) \<le> sint (THERMAL_RUNAWAY_TEMP_C example_cfg)
   \<and> THERMAL_RUNAWAY_TICKS example_cfg < 30000 - runawaylastChangeTime example_st
   \<and> heaterThermalRunaway (detectThermalRunaway example_cfg 30000 2 100 example_st)
   \<and> \<not> THERMAL_RUNAWAY_TICKS example_cfg < 1500 - runawaylastChangeTime example_st
   \<and> detectThermalRunaway example_cfg 1500 2 100 example_st = example_st
   \<and> sint (THERMAL_RUNAWAY_TEMP_C example_cfg) < sint (runaway_delta 30 (tipTempCRunawayTemp example_st))
   \<and> detectThermalRunaway example_cfg 1500 30 100 example_st
       = example_st\<lparr>tipTempCRunawayTemp := 30, runawaylastChangeTime := 1500\<rparr>
   \<and> \<bar>sint (30 :: int16_t) - sint (tipTempCRunawayTemp example_st)\<bar> < 32768
   \<and> sint (runaway_delta 30 (tipTempCRunawayTemp example_st)) = 30
   \<and> \<not> heaterThermalRunaway example_st
   \<and> risingInTime example_cfg (tipTempCRunawayTemp example_st)
        (runawaylastChangeTime example_st) example_samples
   \<and> \<not> heaterThermalRunaway (detectRun example_cfg (take 4 example_samples) example_st)"
  using runaway_detector_cases [of example_cfg 30000 2 100 example_st example_samples 4]
    runaway_detector_cases [of example_cfg 1500 2 100 example_st example_samples 4]
    runaway_detector_cases [of example_cfg 1500 30 100 example_st example_samples 4]
  by (simp add: example_defs example_samples_def runaway_delta_def)

text \<open>
  C4 as stated fails in the case it leaves out: with the error 100 above the threshold 3,
  the temperature 2 within the threshold of the reference 0 and 1500 ticks of the 20000
  passed, the flag is not set, and the baseline is not reset either: reference and
  timestamp keep their values.
\<close>

theorem runaway_detector_waiting_counterexample:
  "sint (THERMAL_RUNAWAY_TEMP_C example_cfg) < sint (100 :: int32_t)
   \<and> \<not> heaterThermalRunaway (detectThermalRunaway example_cfg 1500 2 100 example_st)
   \<and> tipTempCRunawayTemp (detectThermalRunaway example_cfg 1500 2 100 example_st) = 0
   \<and> tipTempCRunawayTemp (detectThermalRunaway example_cfg 1500 2 100 example_st) \<noteq> 2
   \<and> runawaylastChangeTime (detectThermalRunaway example_cfg 1500 2 100 example_st) = 0
   \<and> runawaylastChangeTime (detectThermalRunaway example_cfg 1500 2 100 example_st) \<noteq> 1500"
  by (simp add: example_defs detectThermalRunaway_def runaway_delta_def)

subsection \<open>The filter chain\<close>

lemma ceiling_lowers:
  "sint (powerLimitCeiling env y) \<le> sint y" "sint (supplyCeiling env y) \<le> sint y"
  by (simp_all add: powerLimitCeiling_def supplyCeiling_def)




lemma slewLimiter_none:
  "SLEW_LIMIT cfg = None \<Longrightarrow> slewLimiter cfg st x = (st, x)"
  by (simp add: slewLimiter_def)

lemma slewLimiter_floor:
  "SLEW_LIMIT cfg = Some slew \<Longrightarrow> 0 \<le> sint (snd (slewLimiter cfg st x))"
  by (simp add: slewLimiter_def Let_def)



























lemma keepAwakePulse_snd:
  "snd (keepAwakePulse cfg env st x)
     = (if keepAwakeFloorActive cfg env st x then getSettingValue env KeepAwakePulse else x)"
  by (simp add: keepAwakePulse_def keepAwakeFloor_def keepAwakeFloorActive_def Let_def)

lemma keepAwakePulse_raises:
  "sint x \<le> sint (snd (keepAwakePulse cfg env st x))"
  by (simp add: keepAwakePulse_snd keepAwakeFloorActive_def)

lemma cutoffs_pass:
  "\<not> 0x7FFF - 32 < sint (getTipRawTemp env) \<Longrightarrow> \<not> heaterThermalRunaway st \<Longrightarrow>
   runawayCutoff (fst (keepAwakePulse cfg env st x))
     (adcCutoff env (snd (keepAwakePulse cfg env st x))) = snd (keepAwakePulse cfg env st x)"
  by (simp add: runawayCutoff_def adcCutoff_def keepAwakePulse_flag)

lemma ceilings_above_both:
  assumes "getSettingValue env PowerLimit \<noteq> 0" and "powerSupplyWattageLimit env \<noteq> 0"
    and "sint (getSettingValue env PowerLimit * 10) < sint x"
    and "sint (powerSupplyWattageLimit env * 10) < sint x"
  shows "supplyCeiling env (powerLimitCeiling env x) = smallerLimitX10 env"
  using assms by (simp add: supplyCeiling_def powerLimitCeiling_def smallerLimitX10_def)

lemma smallerLimitX10_min:
  assumes "- (2 ^ 31) \<le> 10 * sint (getSettingValue env PowerLimit)"
    "10 * sint (getSettingValue env PowerLimit) < 2 ^ 31"
    "- (2 ^ 31) \<le> 10 * sint (powerSupplyWattageLimit env)"
    "10 * sint (powerSupplyWattageLimit env) < 2 ^ 31"
  shows "sint (smallerLimitX10 env)
     = 10 * min (sint (getSettingValue env PowerLimit)) (sint (powerSupplyWattageLimit env))"
proof -
  have "sint (getSettingValue env PowerLimit * 10) = 10 * sint (getSettingValue env PowerLimit)"
    "sint (powerSupplyWattageLimit env * 10) = 10 * sint (powerSupplyWattageLimit env)"
    using assms by (simp_all add: sint_times10)
  then show ?thesis by (simp add: smallerLimitX10_def min_def)
qed

lemma setOutput_above_both:
  assumes p: "getSettingValue env PowerLimit \<noteq> 0" and s: "powerSupplyWattageLimit env \<noteq> 0"
    and xp: "sint (getSettingValue env PowerLimit * 10) < sint x"
    and xs: "sint (powerSupplyWattageLimit env * 10) < sint x"
    and adc: "\<not> 0x7FFF - 32 < sint (getTipRawTemp env)"
    and flag: "\<not> heaterThermalRunaway st"
  shows "supplyCeiling env (powerLimitCeiling env
           (runawayCutoff (fst (keepAwakePulse cfg env st x))
              (adcCutoff env (snd (keepAwakePulse cfg env st x))))) = smallerLimitX10 env"
    and "setOutputx10WattsViaFilters cfg env st x
       = (fst (slewLimiter cfg (fst (keepAwakePulse cfg env st x)) (smallerLimitX10 env)),
          commit cfg (snd (slewLimiter cfg (fst (keepAwakePulse cfg env st x))
                             (smallerLimitX10 env))))"
    and "SLEW_LIMIT cfg = None \<Longrightarrow>
       snd (setOutputx10WattsViaFilters cfg env st x) = commit cfg (smallerLimitX10 env)"
proof -
  let ?x1 = "snd (keepAwakePulse cfg env st x)"
  have "sint x \<le> sint ?x1" by (rule keepAwakePulse_raises)
  then have "sint (getSettingValue env PowerLimit * 10) < sint ?x1"
    "sint (powerSupplyWattageLimit env * 10) < sint ?x1"
    using xp xs by simp_all
  then have c: "supplyCeiling env (powerLimitCeiling env ?x1) = smallerLimitX10 env"
    using p s by (simp add: ceilings_above_both)
  show a: "supplyCeiling env (powerLimitCeiling env
           (runawayCutoff (fst (keepAwakePulse cfg env st x))
              (adcCutoff env (snd (keepAwakePulse cfg env st x))))) = smallerLimitX10 env"
    using c by (simp add: cutoffs_pass [OF adc flag])
  show b: "setOutputx10WattsViaFilters cfg env st x
       = (fst (slewLimiter cfg (fst (keepAwakePulse cfg env st x)) (smallerLimitX10 env)),
          commit cfg (snd (slewLimiter cfg (fst (keepAwakePulse cfg env st x))
                             (smallerLimitX10 env))))"
    by (simp add: setOutput_unfold a)
  show "snd (setOutputx10WattsViaFilters cfg env st x) = commit cfg (smallerLimitX10 env)"
    if "SLEW_LIMIT cfg = None"
    using that by (simp add: b slewLimiter_none)
qed

lemma pidCycle_above_both:
  assumes n: "ulTaskNotifyTake env" and t: "currentTempTargetDegC env \<noteq> 0"
    and p: "getSettingValue env PowerLimit \<noteq> 0" and s: "powerSupplyWattageLimit env \<noteq> 0"
    and xp: "sint (getSettingValue env PowerLimit * 10)
       < sint (requestedPower env (temperatureError
           (clampTarget (currentTempTargetDegC env) (getTipMaxInC env)) (getTipInC env)))"
    and xs: "sint (powerSupplyWattageLimit env * 10)
       < sint (requestedPower env (temperatureError
           (clampTarget (currentTempTargetDegC env) (getTipMaxInC env)) (getTipInC env)))"
    and adc: "\<not> 0x7FFF - 32 < sint (getTipRawTemp env)"
    and flag: "\<not> heaterThermalRunaway (fst (pidCycle cfg env st))"
    and none: "SLEW_LIMIT cfg = None"
  shows "snd (pidCycle cfg env st) = commit cfg (smallerLimitX10 env)"
proof -
  define tError where "tError = temperatureError
      (clampTarget (currentTempTargetDegC env) (getTipMaxInC env)) (getTipInC env)"
  define st2 where "st2 = detectThermalRunaway cfg (tick_runaway env) (ucast (getTipInC env))
      tError (st\<lparr>tempError := update (tempError st) tError\<rparr>)"
  have c: "pidCycle cfg env st
      = setOutputx10WattsViaFilters cfg env st2 (requestedPower env tError)"
    using n t by (simp add: pidCycle_def Let_def tError_def st2_def)
  have "\<not> heaterThermalRunaway st2" using flag c by (simp add: setOutput_flag)
  then show ?thesis
    using c setOutput_above_both(3) [OF p s _ _ adc _ none, of "requestedPower env tError" st2]
      xp xs by (simp add: tError_def)
qed

text \<open>
  C6, as the code has it. When the configured power limit and the supply limit are both
  nonzero, the raw ADC reading is not above 0x7FFF - 32, the runaway flag is not set and
  the requested power is above both limits taken in tenths of a watt, the value after the
  two ceiling stages is the smaller of the two limits in tenths of a watt; the slew
  limiter, where compiled in, and the commit work on that value. The same holds of a
  whole cycle with its own request. Where the multiplication by 10 does not overflow,
  that value is 10 times the smaller limit.
\<close>

theorem ceilings_give_smaller_limit:
  assumes "getSettingValue env PowerLimit \<noteq> 0" and "powerSupplyWattageLimit env \<noteq> 0"
    and "\<not> 0x7FFF - 32 < sint (getTipRawTemp env)"
  shows "(sint (getSettingValue env PowerLimit * 10) < sint x
        \<and> sint (powerSupplyWattageLimit env * 10) < sint x
        \<and> \<not> heaterThermalRunaway st' \<longrightarrow>
        supplyCeiling env (powerLimitCeiling env
           (runawayCutoff (fst (keepAwakePulse cfg env st' x))
              (adcCutoff env (snd (keepAwakePulse cfg env st' x))))) = smallerLimitX10 env
        \<and> setOutputx10WattsViaFilters cfg env st' x
           = (fst (slewLimiter cfg (fst (keepAwakePulse cfg env st' x)) (smallerLimitX10 env)),
              commit cfg (snd (slewLimiter cfg (fst (keepAwakePulse cfg env st' x))
                                 (smallerLimitX10 env))))
        \<and> (SLEW_LIMIT cfg = None \<longrightarrow>
             snd (setOutputx10WattsViaFilters cfg env st' x) = commit cfg (smallerLimitX10 env)))
     \<and> (ulTaskNotifyTake env \<and> currentTempTargetDegC env \<noteq> 0
        \<and> sint (getSettingValue env PowerLimit * 10)
            < sint (requestedPower env (temperatureError
                (clampTarget (currentTempTargetDegC env) (getTipMaxInC env)) (getTipInC env)))
        \<and> sint (powerSupplyWattageLimit env * 10)
            < sint (requestedPower env (temperatureError
                (clampTarget (currentTempTargetDegC env) (getTipMaxInC env)) (getTipInC env)))
        \<and> \<not> heaterThermalRunaway (fst (pidCycle cfg env st))
        \<and> SLEW_LIMIT cfg = None \<longrightarrow>
        snd (pidCycle cfg env st) = commit cfg (smallerLimitX10 env))
     \<and> (- (2 ^ 31) \<le> 10 * sint (getSettingValue env PowerLimit)
        \<and> 10 * sint (getSettingValue env PowerLimit) < 2 ^ 31
        \<and> - (2 ^ 31) \<le> 10 * sint (powerSupplyWattageLimit env)
        \<and> 10 * sint (powerSupplyWattageLimit env) < 2 ^ 31 \<longrightarrow>
        sint (smallerLimitX10 env)
          = 10 * min (sint (getSettingValue env PowerLimit)) (sint (powerSupplyWattageLimit env)))"
  using setOutput_above_both [OF assms(1,2) _ _ assms(3), of x st' cfg]
    pidCycle_above_both [OF _ _ assms(1,2) _ _ assms(3), of cfg st]
    smallerLimitX10_min [of env]
  by blast

theorem ceilings_give_smaller_limit_witness:
  "getSettingValue (example_limits_env\<lparr>currentTempTargetDegC := 450\<rparr>) PowerLimit \<noteq> 0
   \<and> powerSupplyWattageLimit (example_limits_env\<lparr>currentTempTargetDegC := 450\<rparr>) \<noteq> 0
   \<and> \<not> 0x7FFF - 32 < sint (getTipRawTemp (example_limits_env\<lparr>currentTempTargetDegC := 450\<rparr>))
   \<and> sint (getSettingValue (example_limits_env\<lparr>currentTempTargetDegC := 450\<rparr>) PowerLimit * 10)
        < sint (1000 :: int32_t)
   \<and> sint (powerSupplyWattageLimit (example_limits_env\<lparr>currentTempTargetDegC := 450\<rparr>) * 10)
        < sint (1000 :: int32_t)
   \<and> \<not> heaterThermalRunaway example_st
   \<and> SLEW_LIMIT example_cfg = None
   \<and> snd (setOutputx10WattsViaFilters example_cfg
        (example_limits_env\<lparr>currentTempTargetDegC := 450\<rparr>) example_st 1000)
       = [SetTipX10Watts 450, ResetWatchdog]
   \<and> ulTaskNotifyTake (example_limits_env\<lparr>currentTempTargetDegC := 450\<rparr>)
   \<and> currentTempTargetDegC (example_limits_env\<lparr>currentTempTargetDegC := 450\<rparr>) \<noteq> 0
   \<and> requestedPower (example_limits_env\<lparr>currentTempTargetDegC := 450\<rparr>)
        (temperatureError (clampTarget 450 500) 25) = 852
   \<and> \<not> heaterThermalRunaway
        (fst (pidCycle example_cfg (example_limits_env\<lparr>currentTempTargetDegC := 450\<rparr>) example_st))
   \<and> snd (pidCycle example_cfg (example_limits_env\<lparr>currentTempTargetDegC := 450\<rparr>) example_st)
       = [SetTipX10Watts 450, ResetWatchdog]
   \<and> sint (smallerLimitX10 (example_limits_env\<lparr>currentTempTargetDegC := 450\<rparr>)) = 10 * min 65 45"
  using ceilings_give_smaller_limit [of "example_limits_env\<lparr>currentTempTargetDegC := 450\<rparr>"
      1000 example_st example_cfg example_st]
  by (simp add: example_defs example_more_defs cycle_defs filter_defs Let_def
      smallerLimitX10_def)

text \<open>
  C6 as stated fails when a cutoff fires before the ceilings: with limits of 65 W and
  45 W and a request of 852, above both, the value after the two ceiling stages is 0 and
  not 450 when the runaway flag is set, and likewise when the raw reading is 0x7FFF - 10.
\<close>

theorem ceilings_after_cutoff_counterexample:
  "getSettingValue (example_limits_env\<lparr>currentTempTargetDegC := 450\<rparr>) PowerLimit * 10 = 650
   \<and> powerSupplyWattageLimit (example_limits_env\<lparr>currentTempTargetDegC := 450\<rparr>) * 10 = 450
   \<and> ulTaskNotifyTake (example_limits_env\<lparr>currentTempTargetDegC := 450\<rparr>)
   \<and> requestedPower (example_limits_env\<lparr>currentTempTargetDegC := 450\<rparr>)
        (temperatureError (clampTarget 450 500) 25) = 852
   \<and> sint (650 :: int32_t) < sint (852 :: int32_t)
   \<and> sint (450 :: int32_t) < sint (852 :: int32_t)
   \<and> heaterThermalRunaway example_runaway_st
   \<and> supplyCeiling (example_limits_env\<lparr>currentTempTargetDegC := 450\<rparr>)
        (powerLimitCeiling (example_limits_env\<lparr>currentTempTargetDegC := 450\<rparr>)
           (runawayCutoff example_runaway_st
              (adcCutoff (example_limits_env\<lparr>currentTempTargetDegC := 450\<rparr>) 852))) = 0
   \<and> snd (pidCycle example_cfg (example_limits_env\<lparr>currentTempTargetDegC := 450\<rparr>)
        example_runaway_st) = [SetTipX10Watts 0, ResetWatchdog]
   \<and> \<not> heaterThermalRunaway example_st
   \<and> snd (pidCycle example_cfg
        (example_limits_env\<lparr>currentTempTargetDegC := 450, getTipRawTemp := 0x7FFF - 10\<rparr>)
        example_st) = [SetTipX10Watts 0, ResetWatchdog]
   \<and> (0 :: int32_t) \<noteq> 450"
  by (simp add: example_defs example_more_defs cycle_defs filter_defs Let_def)

text \<open>
  C10, as the code has it. Without the slew limiter, a negative request reaches the two
  ceilings as 0 when the ADC cutoff or the runaway cutoff fires, as the pulse level when
  the keep-awake floor is active, and unchanged otherwise, and what the ceilings leave is
  committed. So it is handed to \<^verbatim>\<open>setTipX10Watts\<close> as it is when the keep-awake floor is
  not active, neither cutoff fires and it is not above a limit. A ceiling stage never
  raises a value and leaves a value at or below its limit alone. With the slew limiter
  compiled in, the value handed over is never negative: the floor at 0 is part of that
  block only.
\<close>

theorem negative_power_is_committed:
  "SLEW_LIMIT cfg = None \<Longrightarrow> sint x < 0 \<Longrightarrow>
   snd (setOutputx10WattsViaFilters cfg env st x)
     = commit cfg (supplyCeiling env (powerLimitCeiling env
         (if 0x7FFF - 32 < sint (getTipRawTemp env) \<or> heaterThermalRunaway st then 0
          else if keepAwakeFloorActive cfg env st x then getSettingValue env KeepAwakePulse
          else x)))
   \<and> (\<not> keepAwakeFloorActive cfg env st x \<and> \<not> 0x7FFF - 32 < sint (getTipRawTemp env)
        \<and> \<not> heaterThermalRunaway st
        \<and> sint x \<le> sint (getSettingValue env PowerLimit * 10)
        \<and> sint x \<le> sint (powerSupplyWattageLimit env * 10) \<longrightarrow>
        snd (setOutputx10WattsViaFilters cfg env st x) = commit cfg x)
   \<and> sint (powerLimitCeiling env y) \<le> sint y
   \<and> sint (supplyCeiling env y) \<le> sint y
   \<and> (sint y \<le> sint (getSettingValue env PowerLimit * 10) \<longrightarrow> powerLimitCeiling env y = y)
   \<and> (sint y \<le> sint (powerSupplyWattageLimit env * 10) \<longrightarrow> supplyCeiling env y = y)
   \<and> (SLEW_LIMIT cfg' \<noteq> None \<longrightarrow>
        (\<exists>v. snd (setOutputx10WattsViaFilters cfg' env st y) = commit cfg' v \<and> 0 \<le> sint v))"
proof -
  assume none: "SLEW_LIMIT cfg = None" and neg: "sint x < 0"
  have cut: "runawayCutoff (fst (keepAwakePulse cfg env st x))
            (adcCutoff env (snd (keepAwakePulse cfg env st x)))
      = (if 0x7FFF - 32 < sint (getTipRawTemp env) \<or> heaterThermalRunaway st then 0
         else if keepAwakeFloorActive cfg env st x then getSettingValue env KeepAwakePulse
         else x)"
    by (simp add: runawayCutoff_def adcCutoff_def keepAwakePulse_flag keepAwakePulse_snd)
  have a: "snd (setOutputx10WattsViaFilters cfg env st x)
     = commit cfg (supplyCeiling env (powerLimitCeiling env
         (if 0x7FFF - 32 < sint (getTipRawTemp env) \<or> heaterThermalRunaway st then 0
          else if keepAwakeFloorActive cfg env st x then getSettingValue env KeepAwakePulse
          else x)))"
    by (simp only: setOutput_unfold cut slewLimiter_none [OF none] snd_conv)
  have b: "snd (setOutputx10WattsViaFilters cfg env st x) = commit cfg x"
    if "\<not> keepAwakeFloorActive cfg env st x" "\<not> 0x7FFF - 32 < sint (getTipRawTemp env)"
      "\<not> heaterThermalRunaway st" "sint x \<le> sint (getSettingValue env PowerLimit * 10)"
      "sint x \<le> sint (powerSupplyWattageLimit env * 10)"
    using that by (simp add: a supplyCeiling_def powerLimitCeiling_def)
  have c: "powerLimitCeiling env y = y" if "sint y \<le> sint (getSettingValue env PowerLimit * 10)"
    using that by (simp add: powerLimitCeiling_def)
  have d: "supplyCeiling env y = y" if "sint y \<le> sint (powerSupplyWattageLimit env * 10)"
    using that by (simp add: supplyCeiling_def)
  have e: "\<exists>v. snd (setOutputx10WattsViaFilters cfg' env st y) = commit cfg' v \<and> 0 \<le> sint v"
    if compiled: "SLEW_LIMIT cfg' \<noteq> None"
  proof -
    obtain slew where "SLEW_LIMIT cfg' = Some slew" using compiled by auto
    then show ?thesis using slewLimiter_floor by (auto simp: setOutput_unfold)
  qed
  from a b c d e ceiling_lowers show ?thesis by blast
qed

theorem negative_power_is_committed_witness:
  "SLEW_LIMIT example_cfg = None \<and> sint (- 158 :: int32_t) < 0
   \<and> \<not> keepAwakeFloorActive example_cfg example_limits_env example_st (- 158)
   \<and> \<not> 0x7FFF - 32 < sint (getTipRawTemp example_limits_env)
   \<and> \<not> heaterThermalRunaway example_st
   \<and> snd (setOutputx10WattsViaFilters example_cfg example_limits_env example_st (- 158))
       = [SetTipX10Watts (- 158), ResetWatchdog]
   \<and> snd (pidCycle example_cfg (example_limits_env\<lparr>getTipInC := 400\<rparr>) example_st)
       = [SetTipX10Watts (- 158), ResetWatchdog]
   \<and> sint (- 158 :: int32_t) \<le> sint (getSettingValue example_limits_env PowerLimit * 10)
   \<and> powerLimitCeiling example_limits_env (- 158) = - 158
   \<and> sint (- 158 :: int32_t) \<le> sint (powerSupplyWattageLimit example_limits_env * 10)
   \<and> supplyCeiling example_limits_env (- 158) = - 158
   \<and> SLEW_LIMIT example_slew_cfg \<noteq> None
   \<and> snd (setOutputx10WattsViaFilters example_slew_cfg example_limits_env example_st (- 158))
       = [SetTipX10Watts 0, ResetWatchdog]"
  using negative_power_is_committed
      [of example_cfg "- 158" example_limits_env example_st "- 158" example_slew_cfg]
  by (simp add: example_defs example_more_defs cycle_defs filter_defs Let_def
      limitsNotNegative_def keepAwakeFloorActive_def)

text \<open>
  C10 as stated fails where a stage replaces the negative request: without the slew
  limiter the request -158 is committed as 0 when the raw reading is 0x7FFF - 10 and when
  the runaway flag is set, and as 30 inside a keep-awake pulse of level 30.
\<close>

theorem negative_power_replaced_counterexample:
  "SLEW_LIMIT example_cfg = None \<and> sint (- 158 :: int32_t) < 0
   \<and> getTipRawTemp (example_env\<lparr>getTipRawTemp := 0x7FFF - 10\<rparr>) = 0x7FFF - 10
   \<and> snd (setOutputx10WattsViaFilters example_cfg (example_env\<lparr>getTipRawTemp := 0x7FFF - 10\<rparr>)
        example_st (- 158)) = [SetTipX10Watts 0, ResetWatchdog]
   \<and> heaterThermalRunaway example_runaway_st
   \<and> snd (setOutputx10WattsViaFilters example_cfg example_env example_runaway_st (- 158))
       = [SetTipX10Watts 0, ResetWatchdog]
   \<and> (0 :: int32_t) \<noteq> - 158
   \<and> keepAwakeFloorActive example_cfg example_pulse_env example_st (- 158)
   \<and> snd (setOutputx10WattsViaFilters example_cfg example_pulse_env example_st (- 158))
       = [SetTipX10Watts 30, ResetWatchdog]
   \<and> (30 :: int32_t) \<noteq> - 158"
  by (simp add: example_defs example_more_defs cycle_defs filter_defs Let_def
      keepAwakeFloorActive_def powerPulseWaitUnit_def powerPulseDurationUnit_def)

end
